theory Spec2Isabelle
  imports Main "HOL-Library.AList"
begin

section \<open>The area component of quick-pomelo (lib/components/area/index.js)\<close>

text \<open>
  An Area owns a table of players, a table of the event handlers it has put on each
  player, and a handle to its broadcast channel. Every operation of the source is a chain
  of promise steps (\<open>Q.fcall(...).then(...).catch(...)\<close>); it is embedded as a function from
  the state before to the settled outcome (\<open>Inl\<close> the rejection, \<open>Inr\<close> the value)
  together with the state after. The calls the Area makes on its collaborators (the player
  manager, the players, the channel service, the logger at level warn and above, the
  optional hooks) are appended to a trace, in the order in which the source issues them.

  Conventions of the embedding:
  \<^item> \<open>players\<close> is a JavaScript object used as a dictionary. It is an association list in
    insertion order, which is the order of \<open>Object.keys\<close> and of \<open>for .. in\<close> for keys that
    are not integer-like. The stored players are objects, hence truthy, so that
    \<open>!this.players[id]\<close> fails exactly when \<open>id\<close> is a key or a property name the object
    inherits (\<open>constructor\<close>, \<open>toString\<close>, ...), whereas \<open>hasOwnProperty\<close> holds of
    the keys only. Storing under the key \<open>__proto__\<close> is the one place where the table and
    the object part ways (the runtime would replace the object's prototype): the table
    stores it like any other key.
  \<^item> A call on a collaborator settles when it is issued; the operations of one Area are
    serialised by the caller. Which call of a concurrent batch settles first is therefore
    not represented: \<open>Q.all\<close> reports the first failure in the order of the batch.
  \<^item> \<open>logger.debug\<close> lines and the area's own \<open>_id\<close> (a constant argument of every
    ledger call) are left out, and so are \<open>init\<close>, \<open>serialize\<close> and \<open>savePlayers\<close>,
    which no property below is about.
\<close>

subsection \<open>Data\<close>

type_synonym pid = string
type_synonym cid = string
type_synonym route = string
type_synonym msg = string
type_synonym member = "pid \<times> cid"

datatype event = Connect | Disconnect | Notify

datatype hook =
  OnDestroy | OnStart | OnStop | OnDeserialize
  | BeforeJoin | OnJoin | BeforeQuit | OnQuit

datatype error =
  AreaNotEmpty
  | PlayerNotInArea pid
  | TypeError
  | External string

datatype logmsg =
  NotInArea pid
  | QuitByForce pid
  | AlreadyRegistered pid event
  | NotRegistered pid event
  | Stack error

datatype effect =
  AcquirePlayer pid
  | ReleasePlayer pid
  | LoadPlayer pid
  | SavePlayer pid
  | GetAcquiredPlayerIds
  | LoadAcquiredPlayers
  | PlayerStart pid
  | PlayerStop pid
  | PlayerDestroy pid
  | PlayerOn pid event
  | PlayerRemoveListener pid event
  | CallHook hook
  | GetChannel
  | ChannelAdd pid cid
  | DestroyChannel
  | PushMessage route msg
  | PushMessageByUids route msg "member option list"
  | Warn logmsg

record player =
  player_id :: pid
  connector :: "cid option"

text \<open>
  The state: the fields of the Area (\<open>players\<close>, \<open>playerEventHandlers\<close>, \<open>channel\<close>),
  the ownership record the player manager keeps for this area (\<open>ledger\<close>), whether the
  channel service still has the area's channel (\<open>channelExists\<close>), and the trace.
  \<open>playerEventHandlers\<close> holds for a player id the inner object \<open>{event : handler}\<close>,
  of which only the set of its keys matters; \<open>channel\<close> is \<open>None\<close> while \<open>this.channel\<close>
  is undefined, and otherwise the member records of the channel object.
\<close>

record world =
  players :: "(pid \<times> player) list"
  playerEventHandlers :: "(pid \<times> event set) list"
  channel :: "(pid \<times> member) list option"
  channelExists :: bool
  ledger :: "pid list"
  trace :: "effect list"

text \<open>
  The collaborators are parameters: for each call, whether it fails (and with what) or
  what it returns. \<open>hooks h = None\<close> says that the Area object has no method \<open>h\<close>.
\<close>

record env =
  acquire_res :: "pid \<Rightarrow> error option"
  release_res :: "pid \<Rightarrow> error option"
  fetch_res :: "error option"
  load_res :: "pid \<Rightarrow> error + player"
  loadAll_res :: "error + player list"
  save_res :: "pid \<Rightarrow> error option"
  start_res :: "pid \<Rightarrow> error option"
  stop_res :: "pid \<Rightarrow> error option"
  destroy_res :: "pid \<Rightarrow> error option"
  hooks :: "hook \<Rightarrow> error option option"

type_synonym 'a promise = "(error + 'a) \<times> world"

subsection \<open>Promise combinators\<close>

definition thenP :: "'a promise \<Rightarrow> ('a \<Rightarrow> world \<Rightarrow> 'b promise) \<Rightarrow> 'b promise" where
  "thenP r f = (case r of (Inl e, w) \<Rightarrow> (Inl e, w) | (Inr x, w) \<Rightarrow> f x w)"

definition catchP :: "'a promise \<Rightarrow> (error \<Rightarrow> world \<Rightarrow> 'a promise) \<Rightarrow> 'a promise" where
  "catchP r h = (case r of (Inl e, w) \<Rightarrow> h e w | (Inr x, w) \<Rightarrow> (Inr x, w))"

definition settle :: "error option \<Rightarrow> error + unit" where
  "settle r = (case r of None \<Rightarrow> Inr () | Some e \<Rightarrow> Inl e)"

definition emit :: "effect \<Rightarrow> world \<Rightarrow> world" where
  "emit x w = w\<lparr>trace := trace w @ [x]\<rparr>"

text \<open>A loop whose body may throw: the first exception ends it.\<close>

fun forEachP :: "('a \<Rightarrow> world \<Rightarrow> unit promise) \<Rightarrow> 'a list \<Rightarrow> world \<Rightarrow> unit promise" where
  "forEachP f [] w = (Inr (), w)"
| "forEachP f (x # xs) w = thenP (f x w) (\<lambda>_. forEachP f xs)"

text \<open>
  \<open>Q.all\<close> over a batch built with \<open>map\<close>: every task of the batch is started, and the
  result is the first rejection if there is one. \<open>Q.allSettled\<close>: every task is started
  and the result is fulfilled whatever the tasks did.
\<close>

fun allP :: "(world \<Rightarrow> unit promise) list \<Rightarrow> world \<Rightarrow> unit promise" where
  "allP [] w = (Inr (), w)"
| "allP (t # ts) w =
     (case t w of (r, w1) \<Rightarrow>
        (case allP ts w1 of (rs, w2) \<Rightarrow>
           ((case r of Inl e \<Rightarrow> Inl e | Inr _ \<Rightarrow> rs), w2)))"

fun allSettled :: "(world \<Rightarrow> unit promise) list \<Rightarrow> world \<Rightarrow> unit promise" where
  "allSettled [] w = (Inr (), w)"
| "allSettled (t # ts) w = allSettled ts (snd (t w))"

subsection \<open>The collaborators\<close>

text \<open>
  Modelled from the spec: the Ownership Ledger client (\<open>app.playerManager\<close>), whose code
  is not part of the source. Acquiring adds the id to the ids the ledger attributes to
  this area, releasing removes it (releasing an unheld lock is not an error), listing
  returns them; each call can also fail, and then changes nothing.
\<close>

definition acquirePlayer :: "env \<Rightarrow> pid \<Rightarrow> world \<Rightarrow> unit promise" where
  \<comment> \<open>Modelled from the spec: \<open>acquire(playerId, areaId)\<close> of the ledger client.\<close>
  "acquirePlayer env playerId w =
     (case acquire_res env playerId of
        Some e \<Rightarrow> (Inl e, emit (AcquirePlayer playerId) w)
      | None \<Rightarrow> (Inr (), (emit (AcquirePlayer playerId) w)\<lparr>ledger := List.insert playerId (ledger w)\<rparr>))"

definition releasePlayer :: "env \<Rightarrow> pid \<Rightarrow> world \<Rightarrow> unit promise" where
  \<comment> \<open>Modelled from the spec: \<open>release(playerId, areaId)\<close> of the ledger client.\<close>
  "releasePlayer env playerId w =
     (case release_res env playerId of
        Some e \<Rightarrow> (Inl e, emit (ReleasePlayer playerId) w)
      | None \<Rightarrow> (Inr (), (emit (ReleasePlayer playerId) w)\<lparr>ledger := removeAll playerId (ledger w)\<rparr>))"

definition getAcquiredPlayerIds :: "env \<Rightarrow> world \<Rightarrow> (pid list) promise" where
  \<comment> \<open>Modelled from the spec: \<open>listOwned(areaId)\<close> of the ledger client.\<close>
  "getAcquiredPlayerIds env w =
     (case fetch_res env of
        Some e \<Rightarrow> (Inl e, emit GetAcquiredPlayerIds w)
      | None \<Rightarrow> (Inr (ledger w), emit GetAcquiredPlayerIds w))"

definition loadPlayer :: "env \<Rightarrow> pid \<Rightarrow> world \<Rightarrow> player promise" where
  "loadPlayer env playerId w = (load_res env playerId, emit (LoadPlayer playerId) w)"

definition loadAcquiredPlayers :: "env \<Rightarrow> world \<Rightarrow> (player list) promise" where
  "loadAcquiredPlayers env w = (loadAll_res env, emit LoadAcquiredPlayers w)"

definition savePlayer :: "env \<Rightarrow> pid \<Rightarrow> world \<Rightarrow> unit promise" where
  "savePlayer env playerId w = (settle (save_res env playerId), emit (SavePlayer playerId) w)"

text \<open>The methods of a held player, named by the key under which the Area holds it.\<close>

definition playerStart :: "env \<Rightarrow> pid \<Rightarrow> world \<Rightarrow> unit promise" where
  "playerStart env playerId w = (settle (start_res env playerId), emit (PlayerStart playerId) w)"

definition playerStop :: "env \<Rightarrow> pid \<Rightarrow> world \<Rightarrow> unit promise" where
  "playerStop env playerId w = (settle (stop_res env playerId), emit (PlayerStop playerId) w)"

definition playerDestroy :: "env \<Rightarrow> pid \<Rightarrow> world \<Rightarrow> unit promise" where
  "playerDestroy env playerId w =
     (settle (destroy_res env playerId), emit (PlayerDestroy playerId) w)"

text \<open>
  An optional hook, \<open>if(typeof(self.onX) === 'function') return self.onX(..)\<close>, and a
  method that is always called (\<open>beforeJoin\<close>, \<open>beforeQuit\<close>: the prototype's own
  version does nothing, a subclass may throw).
\<close>

definition callHook :: "env \<Rightarrow> hook \<Rightarrow> world \<Rightarrow> unit promise" where
  "callHook env h w =
     (case hooks env h of
        None \<Rightarrow> (Inr (), w)
      | Some r \<Rightarrow> (settle r, emit (CallHook h) w))"

definition callMethod :: "env \<Rightarrow> hook \<Rightarrow> world \<Rightarrow> unit promise" where
  "callMethod env h w =
     (case hooks env h of
        None \<Rightarrow> (Inr (), emit (CallHook h) w)
      | Some r \<Rightarrow> (settle r, emit (CallHook h) w))"

text \<open>
  Modelled from the spec: the Broadcast Group client (\<open>app.channelService\<close> and the
  channel object it returns), whose code is not part of the source. \<open>getChannel(name, true)\<close>
  returns the channel of that name and creates it, without members, when there is none;
  \<open>add\<close> records the member under its player id, \<open>getMember\<close> looks it up.
\<close>

definition getChannel :: "world \<Rightarrow> world" where
  \<comment> \<open>Modelled from the spec: \<open>createGroup(name)\<close> of the group client.\<close>
  "getChannel w =
     (emit GetChannel w)\<lparr>channel :=
         Some (if channelExists w then (case channel w of None \<Rightarrow> [] | Some m \<Rightarrow> m) else []),
       channelExists := True\<rparr>"

definition channelAdd :: "pid \<Rightarrow> cid \<Rightarrow> world \<Rightarrow> unit promise" where
  \<comment> \<open>Modelled from the spec: \<open>addMember(group, playerId, connectionId)\<close>.\<close>
  "channelAdd uid sid w =
     (case channel w of
        None \<Rightarrow> (Inl TypeError, w)
      | Some m \<Rightarrow> (Inr (), (emit (ChannelAdd uid sid) w)\<lparr>channel := Some (AList.update uid (uid, sid) m)\<rparr>))"

definition getMember :: "world \<Rightarrow> pid \<Rightarrow> error + member option" where
  \<comment> \<open>Modelled from the spec: \<open>lookupMember(group, playerId)\<close>.\<close>
  "getMember w playerId =
     (case channel w of None \<Rightarrow> Inl TypeError | Some m \<Rightarrow> Inr (map_of m playerId))"

subsection \<open>Player table and event wiring\<close>

definition getPlayer :: "world \<Rightarrow> pid \<Rightarrow> error + player" where
  "getPlayer w playerId =
     (case map_of (players w) playerId of
        None \<Rightarrow> Inl (PlayerNotInArea playerId)
      | Some pl \<Rightarrow> Inr pl)"

text \<open>
  \<open>obj[key]\<close> on a plain object looks the key up among the object's own properties and
  then along the prototype chain. \<open>inheritedNames\<close> are the property names every plain
  object inherits from \<open>Object.prototype\<close> (a constant of the runtime, not of the
  repository); their values are functions or objects, hence truthy. \<open>truthyAt obj key\<close>
  is \<open>!!obj[key]\<close> for an object whose own values are truthy; \<open>hasOwnProperty\<close> is
  \<open>map_of obj key \<noteq> None\<close>.
\<close>

definition inheritedNames :: "string list" where
  "inheritedNames =
     [''constructor'', ''toString'', ''toLocaleString'', ''valueOf'', ''hasOwnProperty'',
      ''isPrototypeOf'', ''propertyIsEnumerable'', ''__proto__'', ''__defineGetter__'',
      ''__defineSetter__'', ''__lookupGetter__'', ''__lookupSetter__'']"

definition truthyAt :: "(string \<times> 'a) list \<Rightarrow> string \<Rightarrow> bool" where
  "truthyAt obj key =
     (case map_of obj key of Some _ \<Rightarrow> True | None \<Rightarrow> key \<in> set inheritedNames)"

definition hasPlayer :: "world \<Rightarrow> pid \<Rightarrow> bool" where
  "hasPlayer w playerId = truthyAt (players w) playerId"

definition handlersOf :: "world \<Rightarrow> pid \<Rightarrow> event set" where
  "handlersOf w playerId =
     (case map_of (playerEventHandlers w) playerId of None \<Rightarrow> {} | Some evs \<Rightarrow> evs)"

definition registerPlayerEvent :: "pid \<Rightarrow> event \<Rightarrow> world \<Rightarrow> unit promise" where
  "registerPlayerEvent playerId ev w =
     (case getPlayer w playerId of
        Inl e \<Rightarrow> (Inl e, w)
      | Inr pl \<Rightarrow>
          (let w1 = (if map_of (playerEventHandlers w) playerId = None
                     then w\<lparr>playerEventHandlers :=
                            AList.update playerId {} (playerEventHandlers w)\<rparr>
                     else w)
           in if ev \<in> handlersOf w1 playerId
              then (Inr (), emit (Warn (AlreadyRegistered playerId ev)) w1)
              else (Inr (), (emit (PlayerOn playerId ev) w1)
                     \<lparr>playerEventHandlers :=
                        AList.update playerId (insert ev (handlersOf w1 playerId))
                          (playerEventHandlers w1)\<rparr>)))"

definition removePlayerEvent :: "pid \<Rightarrow> event \<Rightarrow> world \<Rightarrow> unit promise" where
  \<comment> \<open>\<open>!handlers[playerId] || !handlers[playerId][event]\<close>: for an inherited name without
      an entry the first test fails and the second holds (no inherited value has a property
      named after an event), which is the branch of a missing entry.\<close>
  "removePlayerEvent playerId ev w =
     (case getPlayer w playerId of
        Inl e \<Rightarrow> (Inl e, w)
      | Inr pl \<Rightarrow>
          (if map_of (playerEventHandlers w) playerId = None \<or> ev \<notin> handlersOf w playerId
           then (Inr (), emit (Warn (NotRegistered playerId ev)) w)
           else (Inr (), (emit (PlayerRemoveListener playerId ev) w)
                  \<lparr>playerEventHandlers :=
                     AList.update playerId (handlersOf w playerId - {ev})
                       (playerEventHandlers w)\<rparr>)))"

definition registerPlayerEvents :: "pid \<Rightarrow> world \<Rightarrow> unit promise" where
  "registerPlayerEvents playerId w =
     thenP (thenP (registerPlayerEvent playerId Connect w)
       (\<lambda>_. registerPlayerEvent playerId Disconnect))
       (\<lambda>_. registerPlayerEvent playerId Notify)"

definition removePlayerEvents :: "pid \<Rightarrow> world \<Rightarrow> unit promise" where
  "removePlayerEvents playerId w =
     thenP (thenP (removePlayerEvent playerId Connect w)
       (\<lambda>_. removePlayerEvent playerId Disconnect))
       (\<lambda>_. removePlayerEvent playerId Notify)"

subsection \<open>Channel and notification\<close>

definition startChannel :: "world \<Rightarrow> unit promise" where
  "startChannel w =
     forEachP (\<lambda>(playerId, pl) w.
         (case connector pl of
            None \<Rightarrow> (Inr (), w)
          | Some c \<Rightarrow> if c = [] then (Inr (), w) else channelAdd (player_id pl) c w))
       (players w) (getChannel w)"

definition stopChannel :: "world \<Rightarrow> unit promise" where
  \<comment> \<open>\<open>destroyChannel\<close> is \<open>destroyGroup(name)\<close> of the group client; the handle
      \<open>this.channel\<close> is not cleared.\<close>
  "stopChannel w = (Inr (), (emit DestroyChannel w)\<lparr>channelExists := False\<rparr>)"

definition notifyAll :: "route \<Rightarrow> msg \<Rightarrow> world \<Rightarrow> unit promise" where
  "notifyAll rt m w =
     (case channel w of
        None \<Rightarrow> (Inl TypeError, w)
      | Some _ \<Rightarrow> (Inr (), emit (PushMessage rt m) w))"

text \<open>
  The first argument of \<open>notify\<close>: nothing (\<open>undefined\<close>, \<open>null\<close>), one id, or an array of
  ids. \<open>!playerIds\<close> holds of nothing and of the empty string; an array, also the empty
  one, is truthy.
\<close>

datatype target = Absent | One pid | Many "pid list"

definition falsy :: "target \<Rightarrow> bool" where
  "falsy t = (case t of Absent \<Rightarrow> True | One p \<Rightarrow> p = [] | Many ps \<Rightarrow> False)"

definition targetIds :: "target \<Rightarrow> pid list" where
  "targetIds t = (case t of Absent \<Rightarrow> [] | One p \<Rightarrow> [p] | Many ps \<Rightarrow> ps)"

fun getMembers :: "world \<Rightarrow> pid list \<Rightarrow> error + member option list" where
  "getMembers w [] = Inr []"
| "getMembers w (playerId # ps) =
     (case getMember w playerId of
        Inl e \<Rightarrow> Inl e
      | Inr m \<Rightarrow> (case getMembers w ps of Inl e \<Rightarrow> Inl e | Inr ms \<Rightarrow> Inr (m # ms)))"

definition notify :: "target \<Rightarrow> route \<Rightarrow> msg \<Rightarrow> world \<Rightarrow> unit promise" where
  "notify playerIds rt m w =
     (if falsy playerIds then notifyAll rt m w
      else (case getMembers w (targetIds playerIds) of
              Inl e \<Rightarrow> (Inl e, w)
            | Inr uidsids \<Rightarrow> (Inr (), emit (PushMessageByUids rt m uidsids) w)))"

subsection \<open>Life cycle\<close>

definition startPlayers :: "env \<Rightarrow> world \<Rightarrow> unit promise" where
  "startPlayers env w = allP (map (\<lambda>playerId. playerStart env playerId) (map fst (players w))) w"

definition stopPlayers :: "env \<Rightarrow> world \<Rightarrow> unit promise" where
  "stopPlayers env w = allP (map (\<lambda>playerId. playerStop env playerId) (map fst (players w))) w"

definition destroy :: "env \<Rightarrow> world \<Rightarrow> unit promise" where
  "destroy env w =
     (if length (map fst (players w)) \<noteq> 0 then (Inl AreaNotEmpty, w)
      else callHook env OnDestroy w)"

definition start :: "env \<Rightarrow> world \<Rightarrow> unit promise" where
  "start env w =
     thenP (thenP (thenP (startChannel w)
       (\<lambda>_. startPlayers env))
       (\<lambda>_ w. forEachP registerPlayerEvents (map fst (players w)) w))
       (\<lambda>_. callHook env OnStart)"

definition stop :: "env \<Rightarrow> world \<Rightarrow> unit promise" where
  "stop env w =
     thenP (thenP (thenP (callHook env OnStop w)
       (\<lambda>_ w. forEachP removePlayerEvents (map fst (players w)) w))
       (\<lambda>_. stopPlayers env))
       (\<lambda>_. stopChannel)"

subsection \<open>Admission and eviction\<close>

definition logStack :: "error \<Rightarrow> world \<Rightarrow> unit promise" where
  "logStack e w = (Inr (), emit (Warn (Stack e)) w)"

text \<open>
  \<open>join\<close>: the handler of the \<open>catch\<close> sits after the step that stores the player and
  before the step that registers the events. The release it issues is not awaited: its
  promise, with its own \<open>catch\<close>, is dropped, and only its effects remain.
\<close>

definition join :: "env \<Rightarrow> pid \<Rightarrow> world \<Rightarrow> unit promise" where
  "join env playerId w =
     thenP (acquirePlayer env playerId w) (\<lambda>_ w.
       thenP (thenP
         (catchP
           (thenP (thenP (callMethod env BeforeJoin w)
             (\<lambda>_. loadPlayer env playerId))
             (\<lambda>ret w. (Inr (), w\<lparr>players := AList.update playerId ret (players w)\<rparr>)))
           (\<lambda>e w.
             (let w1 = (if map_of (players w) playerId \<noteq> None
                        then w\<lparr>players := AList.delete playerId (players w)\<rparr> else w);
                  w2 = snd (catchP (releasePlayer env playerId w1) logStack)
              in (Inl e, w2))))
         (\<lambda>_ w. thenP (registerPlayerEvents playerId w) (\<lambda>_. playerStart env playerId)))
         (\<lambda>_. callHook env OnJoin))"

record opts =
  force :: bool
  remove :: bool

definition quit :: "env \<Rightarrow> pid \<Rightarrow> opts \<Rightarrow> world \<Rightarrow> unit promise" where
  "quit env playerId options w =
     (if \<not> truthyAt (players w) playerId
      then (Inr (), emit (Warn (NotInArea playerId)) w)
      else
          if force options then
            thenP (removePlayerEvents playerId w) (\<lambda>_ w.
              (Inr (), emit (Warn (QuitByForce playerId))
                         (w\<lparr>players := AList.delete playerId (players w)\<rparr>)))
          else
            thenP (thenP (thenP (thenP (thenP (callMethod env BeforeQuit w)
              (\<lambda>_ w. thenP (removePlayerEvents playerId w) (\<lambda>_. playerStop env playerId)))
              (\<lambda>_ w. if \<not> remove options then savePlayer env playerId w
                      else playerDestroy env playerId w))
              (\<lambda>_. releasePlayer env playerId))
              (\<lambda>_ w. (Inr (), w\<lparr>players := AList.delete playerId (players w)\<rparr>)))
              (\<lambda>_. callHook env OnQuit))"

subsection \<open>Reconciliation and bulk load\<close>

definition syncAcquiredPlayers :: "env \<Rightarrow> world \<Rightarrow> unit promise" where
  "syncAcquiredPlayers env w =
     thenP (getAcquiredPlayerIds env w) (\<lambda>playerIds w.
       (let playerIdMap = map (\<lambda>playerId. (playerId, True)) playerIds;
            releases =
              map (\<lambda>playerId w. catchP (releasePlayer env playerId w) logStack)
                (filter (\<lambda>playerId. \<not> truthyAt (players w) playerId) playerIds);
            quits =
              map (\<lambda>playerId w.
                     catchP (quit env playerId \<lparr>force = True, remove = False\<rparr> w) logStack)
                (filter (\<lambda>playerId. \<not> truthyAt playerIdMap playerId) (map fst (players w)))
        in allSettled (releases @ quits) w))"

definition loadPlayers :: "env \<Rightarrow> world \<Rightarrow> unit promise" where
  "loadPlayers env w =
     thenP (loadAcquiredPlayers env (w\<lparr>players := []\<rparr>)) (\<lambda>ps w.
       (Inr (), w\<lparr>players := fold (\<lambda>pl. AList.update (player_id pl) pl) ps (players w)\<rparr>))"

definition deserialize :: "env \<Rightarrow> world \<Rightarrow> unit promise" where
  "deserialize env w = thenP (loadPlayers env w) (\<lambda>_. callHook env OnDeserialize)"

text \<open>The constructor: no players, no handlers, no channel yet.\<close>

definition newArea :: world where
  "newArea = \<lparr>players = [], playerEventHandlers = [], channel = None, channelExists = False,
     ledger = [], trace = []\<rparr>"

section \<open>Vocabulary of the properties\<close>

text \<open>
  \<open>held w p\<close>: the id \<open>p\<close> is a key of \<open>players\<close> (an own property of the object).
  \<open>isUnsubscribe p\<close> holds of the two effects that removing an event of player \<open>p\<close> can
  have (the listener is taken off, or a warning that it was not registered);
  \<open>isLocal\<close> of the effects that touch neither the ledger, nor a hook, nor the channel.
\<close>

definition held :: "world \<Rightarrow> pid \<Rightarrow> bool" where
  "held w p = (map_of (players w) p \<noteq> None)"

definition isUnsubscribe :: "pid \<Rightarrow> effect \<Rightarrow> bool" where
  "isUnsubscribe p x =
     (case x of
        PlayerRemoveListener q ev \<Rightarrow> q = p
      | Warn (NotRegistered q ev) \<Rightarrow> q = p
      | _ \<Rightarrow> False)"

definition isLocal :: "effect \<Rightarrow> bool" where
  "isLocal x = (case x of PlayerRemoveListener _ _ \<Rightarrow> True | Warn _ \<Rightarrow> True | _ \<Rightarrow> False)"

text \<open>What removing events of a held player \<open>p\<close> does between two states.\<close>

definition unsubStep :: "pid \<Rightarrow> world \<Rightarrow> world \<Rightarrow> bool" where
  "unsubStep p w w' \<longleftrightarrow>
     players w' = players w \<and> ledger w' = ledger w \<and> channel w' = channel w \<and>
     channelExists w' = channelExists w \<and>
     (\<forall>q. q \<noteq> p \<longrightarrow> handlersOf w' q = handlersOf w q) \<and>
     handlersOf w' p \<subseteq> handlersOf w p \<and>
     (\<exists>t. trace w' = trace w @ t \<and> (\<forall>x \<in> set t. isUnsubscribe p x) \<and>
        (\<forall>ev. ev \<in> handlersOf w p \<and> ev \<notin> handlersOf w' p \<longrightarrow> PlayerRemoveListener p ev \<in> set t))"

text \<open>The effects of one best-effort release: the call, and the warning if it failed.\<close>

definition releaseTrace :: "env \<Rightarrow> pid \<Rightarrow> effect list" where
  "releaseTrace env p =
     ReleasePlayer p # (case release_res env p of None \<Rightarrow> [] | Some e \<Rightarrow> [Warn (Stack e)])"


subsection \<open>Concrete collaborators and areas\<close>

text \<open>
  Collaborators that never fail, and variants in which one call fails; areas reached from
  the constructor by the operations themselves, and one whose players have drifted from
  the ledger.
\<close>

definition okEnv :: env where
  "okEnv = \<lparr>acquire_res = (\<lambda>_. None), release_res = (\<lambda>_. None), fetch_res = None,
     load_res = (\<lambda>p. Inr \<lparr>player_id = p, connector = None\<rparr>), loadAll_res = Inr [],
     save_res = (\<lambda>_. None), start_res = (\<lambda>_. None), stop_res = (\<lambda>_. None),
     destroy_res = (\<lambda>_. None), hooks = (\<lambda>_. None)\<rparr>"

definition hookedEnv :: env where
  "hookedEnv = okEnv\<lparr>hooks := (\<lambda>_. Some None)\<rparr>"

definition startFails :: env where
  "startFails = okEnv\<lparr>start_res := (\<lambda>_. Some (External ''start failed''))\<rparr>"

definition stopFails :: env where
  "stopFails = okEnv\<lparr>stop_res := (\<lambda>p. if p = ''p1'' then Some (External ''stop failed'') else None)\<rparr>"

definition loadFails :: env where
  "loadFails = okEnv\<lparr>load_res := (\<lambda>_. Inl (External ''not found'')),
     release_res := (\<lambda>_. Some (External ''unavailable''))\<rparr>"

definition bulkLoadFails :: env where
  "bulkLoadFails = okEnv\<lparr>loadAll_res := Inl (External ''unavailable'')\<rparr>"

definition releaseFails :: env where
  "releaseFails = okEnv\<lparr>release_res := (\<lambda>_. Some (External ''unavailable''))\<rparr>"

definition connectedEnv :: env where
  "connectedEnv = okEnv\<lparr>loadAll_res :=
     Inr [\<lparr>player_id = ''p1'', connector = Some ''c1''\<rparr>,
          \<lparr>player_id = ''p2'', connector = Some ''c2''\<rparr>]\<rparr>"

definition forced :: opts where
  "forced = \<lparr>force = True, remove = False\<rparr>"

definition unforced :: opts where
  "unforced = \<lparr>force = False, remove = False\<rparr>"

definition plainPlayer :: "pid \<Rightarrow> player" where
  "plainPlayer p = \<lparr>player_id = p, connector = None\<rparr>"

definition runningArea :: world where
  "runningArea = snd (start okEnv newArea)"

definition oneHeld :: world where
  "oneHeld = snd (join okEnv ''p1'' runningArea)"

definition twoHeld :: world where
  "twoHeld = snd (join okEnv ''p2'' oneHeld)"

definition connectedArea :: world where
  "connectedArea = snd (start okEnv (snd (deserialize connectedEnv newArea)))"

definition diverged :: world where
  "diverged = \<lparr>players = [(''p2'', plainPlayer ''p2''), (''p3'', plainPlayer ''p3'')],
     playerEventHandlers = [(''p2'', {Connect, Disconnect, Notify}),
       (''p3'', {Connect, Disconnect, Notify})],
     channel = Some [], channelExists = True, ledger = [''p1'', ''p2''], trace = []\<rparr>"

text \<open>
  Two areas on which an id is a property name inherited from \<open>Object.prototype\<close>: one
  that holds \<open>toString\<close> while the ledger attributes \<open>constructor\<close> to it, and a running
  area without players to which the ledger attributes \<open>constructor\<close>.
\<close>

definition inheritedDrift :: world where
  "inheritedDrift = \<lparr>players = [(''toString'', plainPlayer ''toString'')],
     playerEventHandlers = [(''toString'', {Connect, Disconnect, Notify})],
     channel = Some [], channelExists = True, ledger = [''constructor''], trace = []\<rparr>"

definition orphanLock :: world where
  "orphanLock = runningArea\<lparr>ledger := [''constructor'']\<rparr>"

section \<open>Basic facts\<close>

lemmas area_defs =
  join_def quit_def start_def stop_def destroy_def startChannel_def stopChannel_def
  startPlayers_def stopPlayers_def getChannel_def channelAdd_def
  registerPlayerEvents_def registerPlayerEvent_def removePlayerEvents_def removePlayerEvent_def
  getPlayer_def hasPlayer_def truthyAt_def inheritedNames_def held_def handlersOf_def
  acquirePlayer_def releasePlayer_def getAcquiredPlayerIds_def loadPlayer_def
  loadAcquiredPlayers_def savePlayer_def playerStart_def playerStop_def playerDestroy_def
  callHook_def callMethod_def logStack_def emit_def
  syncAcquiredPlayers_def loadPlayers_def deserialize_def notify_def notifyAll_def
  falsy_def targetIds_def getMember_def

lemmas fixture_defs =
  newArea_def okEnv_def oneHeld_def twoHeld_def runningArea_def startFails_def stopFails_def
  loadFails_def bulkLoadFails_def releaseFails_def plainPlayer_def diverged_def
  connectedEnv_def connectedArea_def hookedEnv_def forced_def unforced_def
  inheritedDrift_def orphanLock_def

lemma thenP_simps [simp]:
  "thenP (Inl e, w) f = (Inl e, w)" "thenP (Inr x, w) f = f x w"
  by (simp_all add: thenP_def)

lemma catchP_simps [simp]:
  "catchP (Inl e, w) h = h e w" "catchP (Inr x, w) h = (Inr x, w)"
  by (simp_all add: catchP_def)

lemma settle_simps [simp]: "settle None = Inr ()" "settle (Some e) = Inl e"
  by (simp_all add: settle_def)

lemma emit_simps [simp]:
  "players (emit x w) = players w"
  "playerEventHandlers (emit x w) = playerEventHandlers w"
  "channel (emit x w) = channel w"
  "channelExists (emit x w) = channelExists w"
  "ledger (emit x w) = ledger w"
  "trace (emit x w) = trace w @ [x]"
  by (simp_all add: emit_def)

lemma handlersOf_emit [simp]: "handlersOf (emit x w) = handlersOf w"
  by (simp add: handlersOf_def fun_eq_iff)

lemma event_cases: "ev = Connect \<or> ev = Disconnect \<or> ev = Notify"
  by (cases ev) simp_all

lemma held_iff: "held w p \<longleftrightarrow> p \<in> fst ` set (players w)"
  by (simp add: held_def map_of_eq_None_iff)

lemma allSettled_append: "allSettled (xs @ ys) w = allSettled ys (snd (allSettled xs w))"
  by (induction xs arbitrary: w) simp_all

lemma allSettled_fst [simp]: "fst (allSettled ts w) = Inr ()"
  by (induction ts arbitrary: w) simp_all

lemma getMembers_Some: "channel w = Some m \<Longrightarrow> getMembers w ps = Inr (map (map_of m) ps)"
  by (induction ps) (simp_all add: getMember_def)

subsection \<open>The concrete areas, evaluated\<close>

lemma runningArea_eq:
  "runningArea = \<lparr>players = [], playerEventHandlers = [], channel = Some [],
     channelExists = True, ledger = [], trace = [GetChannel]\<rparr>"
  by (simp add: fixture_defs area_defs)

lemma oneHeld_eq:
  "oneHeld = \<lparr>players = [(''p1'', \<lparr>player_id = ''p1'', connector = None\<rparr>)],
     playerEventHandlers = [(''p1'', {Connect, Disconnect, Notify})],
     channel = Some [], channelExists = True, ledger = [''p1''],
     trace = [GetChannel, AcquirePlayer ''p1'', CallHook BeforeJoin, LoadPlayer ''p1'',
       PlayerOn ''p1'' Connect, PlayerOn ''p1'' Disconnect, PlayerOn ''p1'' Notify,
       PlayerStart ''p1'']\<rparr>"
  by (simp add: oneHeld_def runningArea_eq okEnv_def area_defs insert_commute)


lemma connectedArea_eq:
  "connectedArea = \<lparr>players = [(''p1'', \<lparr>player_id = ''p1'', connector = Some ''c1''\<rparr>),
       (''p2'', \<lparr>player_id = ''p2'', connector = Some ''c2''\<rparr>)],
     playerEventHandlers = [(''p1'', {Connect, Disconnect, Notify}),
       (''p2'', {Connect, Disconnect, Notify})],
     channel = Some [(''p1'', ''p1'', ''c1''), (''p2'', ''p2'', ''c2'')],
     channelExists = True, ledger = [],
     trace = [LoadAcquiredPlayers, GetChannel, ChannelAdd ''p1'' ''c1'',
       ChannelAdd ''p2'' ''c2'', PlayerStart ''p1'', PlayerStart ''p2'',
       PlayerOn ''p1'' Connect, PlayerOn ''p1'' Disconnect, PlayerOn ''p1'' Notify,
       PlayerOn ''p2'' Connect, PlayerOn ''p2'' Disconnect, PlayerOn ''p2'' Notify]\<rparr>"
  by (simp add: connectedArea_def connectedEnv_def newArea_def okEnv_def area_defs insert_commute)

subsection \<open>Event wiring on a held player\<close>

lemma unsubStep_trans:
  assumes "unsubStep p w w1" and "unsubStep p w1 w2"
  shows "unsubStep p w w2"
proof -
  from assms(1) obtain t where t: "trace w1 = trace w @ t" "\<forall>x \<in> set t. isUnsubscribe p x"
    "\<forall>ev. ev \<in> handlersOf w p \<and> ev \<notin> handlersOf w1 p \<longrightarrow> PlayerRemoveListener p ev \<in> set t"
    unfolding unsubStep_def by blast
  from assms(2) obtain t' where t': "trace w2 = trace w1 @ t'" "\<forall>x \<in> set t'. isUnsubscribe p x"
    "\<forall>ev. ev \<in> handlersOf w1 p \<and> ev \<notin> handlersOf w2 p \<longrightarrow> PlayerRemoveListener p ev \<in> set t'"
    unfolding unsubStep_def by blast
  have "trace w2 = trace w @ (t @ t')" using t(1) t'(1) by simp
  moreover have "\<forall>x \<in> set (t @ t'). isUnsubscribe p x" using t(2) t'(2) by auto
  moreover have "\<forall>ev. ev \<in> handlersOf w p \<and> ev \<notin> handlersOf w2 p
      \<longrightarrow> PlayerRemoveListener p ev \<in> set (t @ t')"
    using t(3) t'(3) by auto
  ultimately have "\<exists>t. trace w2 = trace w @ t \<and> (\<forall>x \<in> set t. isUnsubscribe p x) \<and>
        (\<forall>ev. ev \<in> handlersOf w p \<and> ev \<notin> handlersOf w2 p \<longrightarrow> PlayerRemoveListener p ev \<in> set t)"
    by blast
  moreover have "handlersOf w2 p \<subseteq> handlersOf w p"
    using assms unfolding unsubStep_def by blast
  ultimately show ?thesis
    using assms unfolding unsubStep_def by simp
qed

lemma removePlayerEvent_held:
  assumes "map_of (players w) p = Some pl"
  shows "fst (removePlayerEvent p ev w) = Inr ()"
    and "unsubStep p w (snd (removePlayerEvent p ev w))"
    and "ev \<notin> handlersOf (snd (removePlayerEvent p ev w)) p"
  using assms
  by (auto simp: removePlayerEvent_def getPlayer_def unsubStep_def handlersOf_def
      isUnsubscribe_def update_conv' split: option.splits)

lemma removePlayerEvent_held_ex:
  assumes "map_of (players w) p = Some pl"
  shows "\<exists>w'. removePlayerEvent p ev w = (Inr (), w') \<and> unsubStep p w w' \<and>
           ev \<notin> handlersOf w' p \<and> map_of (players w') p = Some pl"
proof -
  have "removePlayerEvent p ev w = (Inr (), snd (removePlayerEvent p ev w))"
    using removePlayerEvent_held(1) [OF assms, of ev] by (simp add: prod_eq_iff)
  moreover have "map_of (players (snd (removePlayerEvent p ev w))) p = Some pl"
    using removePlayerEvent_held(2) [OF assms, of ev] assms by (simp add: unsubStep_def)
  ultimately show ?thesis
    using removePlayerEvent_held(2,3) [OF assms, of ev] by blast
qed

lemma removePlayerEvents_held:
  assumes "map_of (players w) p = Some pl"
  shows "\<exists>w'. removePlayerEvents p w = (Inr (), w') \<and> unsubStep p w w' \<and>
           handlersOf w' p = {}"
proof -
  obtain w1 where 1: "removePlayerEvent p Connect w = (Inr (), w1)" "unsubStep p w w1"
      "Connect \<notin> handlersOf w1 p" "map_of (players w1) p = Some pl"
    using removePlayerEvent_held_ex [OF assms] by blast
  obtain w2 where 2: "removePlayerEvent p Disconnect w1 = (Inr (), w2)" "unsubStep p w1 w2"
      "Disconnect \<notin> handlersOf w2 p" "map_of (players w2) p = Some pl"
    using removePlayerEvent_held_ex [OF 1(4)] by blast
  obtain w3 where 3: "removePlayerEvent p Notify w2 = (Inr (), w3)" "unsubStep p w2 w3"
      "Notify \<notin> handlersOf w3 p" "map_of (players w3) p = Some pl"
    using removePlayerEvent_held_ex [OF 2(4)] by blast
  have eq: "removePlayerEvents p w = (Inr (), w3)"
    by (simp add: removePlayerEvents_def 1(1) 2(1) 3(1))
  have st: "unsubStep p w w3"
    using unsubStep_trans [OF unsubStep_trans [OF 1(2) 2(2)] 3(2)] .
  have sub: "handlersOf w3 p \<subseteq> handlersOf w2 p" "handlersOf w2 p \<subseteq> handlersOf w1 p"
    using 2(2) 3(2) by (simp_all add: unsubStep_def)
  have "ev \<notin> handlersOf w3 p" for ev
  proof (cases ev)
    case Connect
    then show ?thesis using 1(3) sub by blast
  next
    case Disconnect
    then show ?thesis using 2(3) sub by blast
  next
    case Notify
    then show ?thesis using 3(3) by simp
  qed
  then have "handlersOf w3 p = {}" by blast
  with eq st show ?thesis by blast
qed





subsection \<open>Stopping the players\<close>


subsection \<open>The outcomes of join and quit\<close>





lemma truthyAt_iff: "truthyAt obj k \<longleftrightarrow> map_of obj k \<noteq> None \<or> k \<in> set inheritedNames"
  by (simp add: truthyAt_def split: option.splits)

lemma truthyAt_playerIdMap:
  "truthyAt (map (\<lambda>playerId. (playerId, True)) ps) k \<longleftrightarrow> k \<in> set ps \<or> k \<in> set inheritedNames"
proof -
  have "map_of (map (\<lambda>playerId. (playerId, True)) ps) k \<noteq> None \<longleftrightarrow> k \<in> set ps"
    by (induction ps) auto
  then show ?thesis by (simp add: truthyAt_iff)
qed


lemma quit_absent:
  "map_of (players w) p = None \<Longrightarrow> p \<notin> set inheritedNames \<Longrightarrow>
     quit env p options w = (Inr (), emit (Warn (NotInArea p)) w)"
  by (simp add: quit_def truthyAt_iff)



lemma quit_force_held:
  assumes "map_of (players w) p = Some pl" and "force options"
  shows "\<exists>w1 t. quit env p options w =
            (Inr (), emit (Warn (QuitByForce p)) (w1\<lparr>players := AList.delete p (players w)\<rparr>)) \<and>
          players w1 = players w \<and> ledger w1 = ledger w \<and> channel w1 = channel w \<and>
          channelExists w1 = channelExists w \<and>
          handlersOf w1 p = {} \<and> (\<forall>q. q \<noteq> p \<longrightarrow> handlersOf w1 q = handlersOf w q) \<and>
          trace w1 = trace w @ t \<and> (\<forall>x \<in> set t. isUnsubscribe p x)"
proof -
  obtain w1 where 1: "removePlayerEvents p w = (Inr (), w1)" "unsubStep p w w1"
      "handlersOf w1 p = {}"
    using removePlayerEvents_held [OF assms(1)] by blast
  obtain t where t: "trace w1 = trace w @ t" "\<forall>x \<in> set t. isUnsubscribe p x"
    using 1(2) unfolding unsubStep_def by blast
  have fr: "players w1 = players w" "ledger w1 = ledger w" "channel w1 = channel w"
      "channelExists w1 = channelExists w" "\<forall>q. q \<noteq> p \<longrightarrow> handlersOf w1 q = handlersOf w q"
    using 1(2) by (simp_all add: unsubStep_def)
  have "quit env p options w =
      (Inr (), emit (Warn (QuitByForce p)) (w1\<lparr>players := AList.delete p (players w)\<rparr>))"
    using assms by (simp add: quit_def truthyAt_iff 1(1) fr(1))
  then show ?thesis using fr t 1(3) by blast
qed


lemma isUnsubscribe_local: "isUnsubscribe p x \<Longrightarrow> isLocal x \<and> x \<noteq> Warn (QuitByForce q)"
  by (auto simp: isUnsubscribe_def isLocal_def split: effect.splits logmsg.splits)

lemma quit_force_step:
  assumes "p \<notin> set inheritedNames"
  shows "\<exists>w1 t. quit env p \<lparr>force = True, remove = False\<rparr> w = (Inr (), w1) \<and>
      players w1 = AList.delete p (players w) \<and> ledger w1 = ledger w \<and>
      channel w1 = channel w \<and> channelExists w1 = channelExists w \<and>
      trace w1 = trace w @ t \<and> (\<forall>x \<in> set t. isLocal x) \<and>
      (\<forall>q. Warn (QuitByForce q) \<in> set t \<longleftrightarrow> q = p \<and> held w p) \<and>
      (\<forall>q. handlersOf w1 q = (if q = p \<and> held w p then {} else handlersOf w q))"
proof (cases "map_of (players w) p")
  case None
  have "AList.delete p (players w) = players w"
    using None by (simp add: map_of_eq_None_iff)
  then show ?thesis
    using None
    by (intro exI [of _ "emit (Warn (NotInArea p)) w"] exI [of _ "[Warn (NotInArea p)]"])
      (simp add: quit_absent [OF None assms] held_def isLocal_def)
next
  case (Some pl)
  obtain w0 t where 0: "quit env p \<lparr>force = True, remove = False\<rparr> w =
            (Inr (), emit (Warn (QuitByForce p)) (w0\<lparr>players := AList.delete p (players w)\<rparr>))"
      "ledger w0 = ledger w" "channel w0 = channel w" "channelExists w0 = channelExists w"
      "handlersOf w0 p = {}" "\<forall>q. q \<noteq> p \<longrightarrow> handlersOf w0 q = handlersOf w q"
      "trace w0 = trace w @ t" "\<forall>x \<in> set t. isUnsubscribe p x"
    using quit_force_held [OF Some, of "\<lparr>force = True, remove = False\<rparr>" env] by auto
  let ?w1 = "emit (Warn (QuitByForce p)) (w0\<lparr>players := AList.delete p (players w)\<rparr>)"
  have h: "handlersOf ?w1 = handlersOf w0" by (simp add: handlersOf_def fun_eq_iff)
  have l: "\<forall>x \<in> set (t @ [Warn (QuitByForce p)]). isLocal x"
    using 0(8) isUnsubscribe_local by (auto simp: isLocal_def)
  have qb: "\<forall>q. Warn (QuitByForce q) \<in> set (t @ [Warn (QuitByForce p)]) \<longleftrightarrow> q = p \<and> held w p"
    using 0(8) isUnsubscribe_local Some by (auto simp: held_def)
  have hs: "\<forall>q. handlersOf ?w1 q = (if q = p \<and> held w p then {} else handlersOf w q)"
    unfolding h using 0(5,6) Some by (auto simp: held_def)
  have tr: "trace ?w1 = trace w @ (t @ [Warn (QuitByForce p)])" using 0(7) by simp
  show ?thesis
    apply (rule exI [of _ ?w1])
    apply (rule exI [of _ "t @ [Warn (QuitByForce p)]"])
    using 0(1-4) l qb hs tr apply simp
    done
qed

subsection \<open>The two batches of reconciliation\<close>

lemma release_step:
  "snd (catchP (releasePlayer env r w) logStack) =
      w\<lparr>ledger := filter (\<lambda>q. \<not> (q = r \<and> release_res env r = None)) (ledger w),
        trace := trace w @ releaseTrace env r\<rparr>"
proof (cases "release_res env r")
  case None
  have "removeAll r xs = filter (\<lambda>q. q \<noteq> r) xs" for xs :: "pid list"
    by (induction xs) auto
  with None show ?thesis
    by (simp add: releasePlayer_def logStack_def releaseTrace_def emit_def)
next
  case (Some e)
  then show ?thesis
    by (simp add: releasePlayer_def logStack_def releaseTrace_def emit_def)
qed

lemma release_batch:
  fixes env rs w
  defines "w' \<equiv> snd (allSettled (map (\<lambda>playerId w. catchP (releasePlayer env playerId w) logStack) rs) w)"
  shows "players w' = players w \<and> playerEventHandlers w' = playerEventHandlers w \<and>
     channel w' = channel w \<and> channelExists w' = channelExists w \<and>
     ledger w' = filter (\<lambda>q. \<not> (q \<in> set rs \<and> release_res env q = None)) (ledger w) \<and>
     trace w' = trace w @ concat (map (releaseTrace env) rs)"
  unfolding w'_def
proof (induction rs arbitrary: w)
  case Nil
  then show ?case by simp
next
  case (Cons r rs)
  show ?case
    unfolding list.map allSettled.simps release_step
    by (auto simp: Cons.IH intro!: filter_cong)
qed

lemma quit_batch:
  assumes "set qs \<inter> set inheritedNames = {}"
  shows "\<exists>w' t. snd (allSettled (map (\<lambda>playerId w.
              catchP (quit env playerId \<lparr>force = True, remove = False\<rparr> w) logStack) qs) w) = w' \<and>
      players w' = filter (\<lambda>kv. fst kv \<notin> set qs) (players w) \<and> ledger w' = ledger w \<and>
      channel w' = channel w \<and> channelExists w' = channelExists w \<and>
      trace w' = trace w @ t \<and> (\<forall>x \<in> set t. isLocal x) \<and>
      (\<forall>q. Warn (QuitByForce q) \<in> set t \<longleftrightarrow> q \<in> set qs \<and> held w q) \<and>
      (\<forall>q. handlersOf w' q = (if q \<in> set qs \<and> held w q then {} else handlersOf w q))"
  using assms
proof (induction qs arbitrary: w)
  case Nil
  then show ?case by simp
next
  case (Cons p qs)
  from Cons.prems have pn: "p \<notin> set inheritedNames"
    and qn: "set qs \<inter> set inheritedNames = {}" by auto
  obtain w1 t1 where 1: "quit env p \<lparr>force = True, remove = False\<rparr> w = (Inr (), w1)"
      "players w1 = AList.delete p (players w)" "ledger w1 = ledger w"
      "channel w1 = channel w" "channelExists w1 = channelExists w"
      "trace w1 = trace w @ t1" "\<forall>x \<in> set t1. isLocal x"
      "\<forall>q. Warn (QuitByForce q) \<in> set t1 \<longleftrightarrow> q = p \<and> held w p"
      "\<forall>q. handlersOf w1 q = (if q = p \<and> held w p then {} else handlersOf w q)"
    using quit_force_step [OF pn, of env w] by blast
  obtain w2 t2 where 2: "snd (allSettled (map (\<lambda>playerId w.
              catchP (quit env playerId \<lparr>force = True, remove = False\<rparr> w) logStack) qs) w1) = w2"
      "players w2 = filter (\<lambda>kv. fst kv \<notin> set qs) (players w1)" "ledger w2 = ledger w1"
      "channel w2 = channel w1" "channelExists w2 = channelExists w1"
      "trace w2 = trace w1 @ t2" "\<forall>x \<in> set t2. isLocal x"
      "\<forall>q. Warn (QuitByForce q) \<in> set t2 \<longleftrightarrow> q \<in> set qs \<and> held w1 q"
      "\<forall>q. handlersOf w2 q = (if q \<in> set qs \<and> held w1 q then {} else handlersOf w1 q)"
    using Cons.IH [OF qn, of w1] by blast
  have hp: "\<And>q. held w1 q \<longleftrightarrow> q \<noteq> p \<and> held w q"
    by (auto simp: held_def 1(2) delete_conv')
  have a: "snd (allSettled (map (\<lambda>playerId w.
              catchP (quit env playerId \<lparr>force = True, remove = False\<rparr> w) logStack) (p # qs)) w) = w2"
    by (simp add: 1(1) 2(1))
  have b: "players w2 = filter (\<lambda>kv. fst kv \<notin> set (p # qs)) (players w)"
    unfolding 2(2) 1(2) by (auto simp: AList.delete_eq intro!: filter_cong)
  have c: "trace w2 = trace w @ (t1 @ t2)" by (simp add: 2(6) 1(6))
  have d: "\<forall>x \<in> set (t1 @ t2). isLocal x" using 1(7) 2(7) by auto
  have e: "\<forall>q. Warn (QuitByForce q) \<in> set (t1 @ t2) \<longleftrightarrow> q \<in> set (p # qs) \<and> held w q"
    using 1(8) 2(8) hp by auto
  have f: "\<forall>q. handlersOf w2 q = (if q \<in> set (p # qs) \<and> held w q then {} else handlersOf w q)"
    using 1(9) 2(9) hp by auto
  show ?case
    apply (rule exI [of _ w2])
    apply (rule exI [of _ "t1 @ t2"])
    using a b c d e f 2(3-5) 1(3-5) apply simp
    done
qed

lemma releaseTrace_mem:
  "ReleasePlayer p \<in> set (concat (map (releaseTrace env) rs)) \<longleftrightarrow> p \<in> set rs"
  "Warn (QuitByForce p) \<notin> set (concat (map (releaseTrace env) rs))"
  by (induction rs) (auto simp: releaseTrace_def split: option.splits)

lemma sync_fetch_fails:
  "fetch_res env = Some e \<Longrightarrow> syncAcquiredPlayers env w = (Inl e, emit GetAcquiredPlayerIds w)"
  by (simp add: syncAcquiredPlayers_def getAcquiredPlayerIds_def)

lemma sync_ok:
  assumes "fetch_res env = None"
    and ord: "\<forall>p \<in> set (ledger w) \<union> fst ` set (players w). p \<notin> set inheritedNames"
  shows "\<exists>w' t. syncAcquiredPlayers env w = (Inr (), w') \<and>
      players w' = filter (\<lambda>kv. fst kv \<in> set (ledger w)) (players w) \<and>
      ledger w' = filter (\<lambda>q. \<not> (\<not> held w q \<and> release_res env q = None)) (ledger w) \<and>
      channel w' = channel w \<and> channelExists w' = channelExists w \<and>
      trace w' = trace w @ GetAcquiredPlayerIds # t \<and>
      (\<forall>p. ReleasePlayer p \<in> set t \<longleftrightarrow> p \<in> set (ledger w) \<and> \<not> held w p) \<and>
      (\<forall>p. Warn (QuitByForce p) \<in> set t \<longleftrightarrow> held w p \<and> p \<notin> set (ledger w)) \<and>
      (\<forall>p. handlersOf w' p = (if held w p \<and> p \<notin> set (ledger w) then {} else handlersOf w p)) \<and>
      (t = [] \<longleftrightarrow> (\<forall>p \<in> set (ledger w). held w p) \<and>
                  (\<forall>p. held w p \<longrightarrow> p \<in> set (ledger w)))"
proof -
  define w0 where "w0 = emit GetAcquiredPlayerIds w"
  define rs where "rs = filter (\<lambda>playerId. \<not> truthyAt (players w0) playerId) (ledger w)"
  define qs where "qs = filter (\<lambda>playerId.
      \<not> truthyAt (map (\<lambda>playerId. (playerId, True)) (ledger w)) playerId) (map fst (players w0))"
  define w1 where
    "w1 = snd (allSettled (map (\<lambda>playerId w. catchP (releasePlayer env playerId w) logStack) rs) w0)"
  let ?Q = "map (\<lambda>playerId w. catchP (quit env playerId \<lparr>force = True, remove = False\<rparr> w) logStack) qs"
  have s: "syncAcquiredPlayers env w = (Inr (), snd (allSettled ?Q w1))"
    using assms
    unfolding syncAcquiredPlayers_def getAcquiredPlayerIds_def w1_def rs_def qs_def w0_def
    by (simp add: allSettled_append prod_eq_iff Let_def)
  have w0: "players w0 = players w" "playerEventHandlers w0 = playerEventHandlers w"
      "channel w0 = channel w" "channelExists w0 = channelExists w" "ledger w0 = ledger w"
      "trace w0 = trace w @ [GetAcquiredPlayerIds]"
    by (simp_all add: w0_def)
  have r: "players w1 = players w" "playerEventHandlers w1 = playerEventHandlers w"
      "channel w1 = channel w" "channelExists w1 = channelExists w"
      "ledger w1 = filter (\<lambda>q. \<not> (q \<in> set rs \<and> release_res env q = None)) (ledger w)"
      "trace w1 = trace w @ GetAcquiredPlayerIds # concat (map (releaseTrace env) rs)"
    using release_batch [of env rs w0] unfolding w1_def [symmetric] by (simp_all add: w0)
  have inrs: "\<And>q. q \<in> set rs \<longleftrightarrow> q \<in> set (ledger w) \<and> \<not> held w q"
    using ord by (auto simp: held_def rs_def w0 truthyAt_iff)
  have inqs: "\<And>q. q \<in> set qs \<longleftrightarrow> held w q \<and> q \<notin> set (ledger w)"
    using ord by (auto simp: held_iff qs_def w0 truthyAt_playerIdMap)
  have qord: "set qs \<inter> set inheritedNames = {}"
    using ord inqs by (auto simp: held_iff)
  obtain w2 t2 where 2: "snd (allSettled ?Q w1) = w2"
      "players w2 = filter (\<lambda>kv. fst kv \<notin> set qs) (players w1)" "ledger w2 = ledger w1"
      "channel w2 = channel w1" "channelExists w2 = channelExists w1"
      "trace w2 = trace w1 @ t2" "\<forall>x \<in> set t2. isLocal x"
      "\<forall>q. Warn (QuitByForce q) \<in> set t2 \<longleftrightarrow> q \<in> set qs \<and> held w1 q"
      "\<forall>q. handlersOf w2 q = (if q \<in> set qs \<and> held w1 q then {} else handlersOf w1 q)"
    using quit_batch [OF qord, of env w1] by blast
  have hp1: "held w1 = held w" by (simp add: held_def fun_eq_iff r(1))
  have ho1: "handlersOf w1 = handlersOf w" by (simp add: handlersOf_def fun_eq_iff r(2))
  let ?t = "concat (map (releaseTrace env) rs) @ t2"
  have a: "players w2 = filter (\<lambda>kv. fst kv \<in> set (ledger w)) (players w)"
    unfolding 2(2) r(1) by (rule filter_cong) (auto simp: inqs held_iff)
  have b: "ledger w2 = filter (\<lambda>q. \<not> (\<not> held w q \<and> release_res env q = None)) (ledger w)"
    unfolding 2(3) r(5) by (rule filter_cong) (auto simp: inrs)
  have c: "trace w2 = trace w @ GetAcquiredPlayerIds # ?t" by (simp add: 2(6) r(6))
  have nrel: "\<And>p. ReleasePlayer p \<notin> set t2" using 2(7) by (auto simp: isLocal_def)
  have d: "\<forall>p. ReleasePlayer p \<in> set ?t \<longleftrightarrow> p \<in> set (ledger w) \<and> \<not> held w p"
    using nrel releaseTrace_mem(1) [of _ env rs] inrs by auto
  have e: "\<forall>p. Warn (QuitByForce p) \<in> set ?t \<longleftrightarrow> held w p \<and> p \<notin> set (ledger w)"
    using 2(8) releaseTrace_mem(2) [of _ env rs] inqs hp1 by auto
  have f: "\<forall>p. handlersOf w2 p = (if held w p \<and> p \<notin> set (ledger w) then {} else handlersOf w p)"
    using 2(9) inqs hp1 ho1 by auto
  have g: "?t = [] \<longleftrightarrow> (\<forall>p \<in> set (ledger w). held w p) \<and>
                  (\<forall>p. held w p \<longrightarrow> p \<in> set (ledger w))"
  proof
    assume "?t = []"
    then have "\<And>p. ReleasePlayer p \<notin> set ?t" "\<And>p. Warn (QuitByForce p) \<notin> set ?t"
      by simp_all
    then show "(\<forall>p \<in> set (ledger w). held w p) \<and> (\<forall>p. held w p \<longrightarrow> p \<in> set (ledger w))"
      using d e by blast
  next
    assume st: "(\<forall>p \<in> set (ledger w). held w p) \<and> (\<forall>p. held w p \<longrightarrow> p \<in> set (ledger w))"
    then have nr: "\<And>q. q \<notin> set rs" and nq: "\<And>q. q \<notin> set qs"
      using inrs inqs by blast+
    have "rs = []" using nr by (cases rs) auto
    moreover have "qs = []" using nq by (cases qs) auto
    ultimately have "rs = []" "qs = []" by simp_all
    then have "snd (allSettled ?Q w1) = w0" by (simp add: w1_def)
    then have "trace w2 = trace w @ [GetAcquiredPlayerIds]" using 2(1) w0(6) by simp
    with c show "?t = []" by simp
  qed
  show ?thesis
    apply (rule exI [of _ w2])
    apply (rule exI [of _ ?t])
    using s 2(1) a b c d e f g 2(4,5) r(3,4) apply simp
    done
qed

lemma sync_stable:
  assumes "\<forall>p \<in> set (ledger w). held w p" and "\<forall>p. held w p \<longrightarrow> p \<in> set (ledger w)"
  shows "snd (syncAcquiredPlayers env w) = emit GetAcquiredPlayerIds w"
proof (cases "fetch_res env")
  case None
  have "filter (\<lambda>playerId. \<not> truthyAt (players w) playerId) (ledger w) = []"
    using assms(1) by (simp add: filter_empty_conv held_def truthyAt_iff)
  moreover have "filter (\<lambda>playerId.
      \<not> truthyAt (map (\<lambda>playerId. (playerId, True)) (ledger w)) playerId) (map fst (players w)) = []"
    using assms(2) by (auto simp: filter_empty_conv held_iff truthyAt_playerIdMap)
  ultimately show ?thesis
    using None by (simp add: syncAcquiredPlayers_def getAcquiredPlayerIds_def)
next
  case (Some e)
  then show ?thesis by (simp add: sync_fetch_fails)
qed

section \<open>The claims\<close>

subsection \<open>C1: rollback of a failed join\<close>




subsection \<open>C2: what reconciliation does\<close>

text \<open>
  C2 says that \<open>syncAcquiredPlayers\<close> issues a release for every id the ledger reports
  and the area does not hold, and a forced quit for every id the area holds and the
  ledger does not report. The source decides both with a truthiness test on a plain
  object (\<open>!self.players[playerId]\<close>, \<open>!playerIdMap[playerId]\<close>), which an inherited
  property name passes although it is not a key; \<open>getPlayer\<close>, \<open>registerPlayerEvent\<close> and
  the handler in \<open>join\<close> use \<open>hasOwnProperty\<close>. On an area that holds \<open>toString\<close> while
  the ledger reports \<open>constructor\<close>, with collaborators that never fail, the operation is
  fulfilled after the fetch alone: no release of \<open>constructor\<close>, no forced quit of
  \<open>toString\<close>.
\<close>

theorem sync_skips_inherited_names:
  "fetch_res okEnv = None \<and>
   ledger inheritedDrift = [''constructor''] \<and>
   map fst (players inheritedDrift) = [''toString''] \<and>
   syncAcquiredPlayers okEnv inheritedDrift =
     (Inr (), emit GetAcquiredPlayerIds inheritedDrift) \<and>
   ReleasePlayer ''constructor'' \<notin> set (trace (snd (syncAcquiredPlayers okEnv inheritedDrift))) \<and>
   held (snd (syncAcquiredPlayers okEnv inheritedDrift)) ''toString''"
  by (simp add: inheritedDrift_def okEnv_def plainPlayer_def area_defs)

text \<open>
  For ids that are not inherited names the operation does what C2 describes. Let \<open>A\<close> be
  the ids the ledger returns and \<open>L\<close> the local players. If the fetch of \<open>A\<close> fails, that
  failure is the outcome and nothing else has happened. Otherwise the operation is
  fulfilled whatever the corrections did; a release has been issued for exactly the ids
  in \<open>A\<close> and not in \<open>L\<close>, a forced quit has been carried out for exactly the ids in \<open>L\<close>
  and not in \<open>A\<close>; the local players are then those of \<open>L\<close> that are in \<open>A\<close>, the evicted
  ones have lost their handlers, and every release that succeeded has taken its id off
  the ledger.
\<close>

lemma sync_corrections_ordinary:
  "(\<forall>e. fetch_res env = Some e \<longrightarrow>
      syncAcquiredPlayers env w = (Inl e, emit GetAcquiredPlayerIds w)) \<and>
   (fetch_res env = None \<and>
    (\<forall>p \<in> set (ledger w) \<union> fst ` set (players w). p \<notin> set inheritedNames) \<longrightarrow>
      fst (syncAcquiredPlayers env w) = Inr () \<and>
      players (snd (syncAcquiredPlayers env w)) =
        filter (\<lambda>kv. fst kv \<in> set (ledger w)) (players w) \<and>
      (\<exists>t. trace (snd (syncAcquiredPlayers env w)) = trace w @ GetAcquiredPlayerIds # t \<and>
         (\<forall>p. ReleasePlayer p \<in> set t \<longleftrightarrow> p \<in> set (ledger w) \<and> \<not> held w p) \<and>
         (\<forall>p. Warn (QuitByForce p) \<in> set t \<longleftrightarrow> held w p \<and> p \<notin> set (ledger w))) \<and>
      (\<forall>p. held w p \<and> p \<notin> set (ledger w) \<longrightarrow>
         \<not> held (snd (syncAcquiredPlayers env w)) p \<and>
         handlersOf (snd (syncAcquiredPlayers env w)) p = {}) \<and>
      (\<forall>p. p \<in> set (ledger w) \<and> \<not> held w p \<and> release_res env p = None \<longrightarrow>
         p \<notin> set (ledger (snd (syncAcquiredPlayers env w)))))"
proof (cases "fetch_res env = None \<and>
    (\<forall>p \<in> set (ledger w) \<union> fst ` set (players w). p \<notin> set inheritedNames)")
  case True
  then have None: "fetch_res env = None"
    and ord: "\<forall>p \<in> set (ledger w) \<union> fst ` set (players w). p \<notin> set inheritedNames"
    by blast+
  obtain w' t where 1: "syncAcquiredPlayers env w = (Inr (), w')"
      "players w' = filter (\<lambda>kv. fst kv \<in> set (ledger w)) (players w)"
      "ledger w' = filter (\<lambda>q. \<not> (\<not> held w q \<and> release_res env q = None)) (ledger w)"
      "trace w' = trace w @ GetAcquiredPlayerIds # t"
      "\<forall>p. ReleasePlayer p \<in> set t \<longleftrightarrow> p \<in> set (ledger w) \<and> \<not> held w p"
      "\<forall>p. Warn (QuitByForce p) \<in> set t \<longleftrightarrow> held w p \<and> p \<notin> set (ledger w)"
      "\<forall>p. handlersOf w' p = (if held w p \<and> p \<notin> set (ledger w) then {} else handlersOf w p)"
    using sync_ok [OF None ord] by blast
  have hp: "\<And>p. held w' p \<longleftrightarrow> held w p \<and> p \<in> set (ledger w)"
    by (auto simp: held_iff 1(2))
  show ?thesis
    using True 1(4-7) hp by (simp add: 1(1,2,3))
next
  case False
  then show ?thesis by (auto simp: sync_fetch_fails)
qed

text \<open>
  The scenario of the spec: the ledger reports \<open>p1, p2\<close>, the area holds \<open>p2, p3\<close>.
  Afterwards the lock of \<open>p1\<close> has been released, \<open>p3\<close> has been quit by force, and the
  area holds \<open>p2\<close>. With a ledger on which every release fails the operation is fulfilled
  all the same.
\<close>

lemma sync_scenario:
  "fetch_res okEnv = None \<and>
   map fst (players diverged) = [''p2'', ''p3''] \<and> ledger diverged = [''p1'', ''p2''] \<and>
   fst (syncAcquiredPlayers okEnv diverged) = Inr () \<and>
   map fst (players (snd (syncAcquiredPlayers okEnv diverged))) = [''p2''] \<and>
   trace (snd (syncAcquiredPlayers okEnv diverged)) =
     [GetAcquiredPlayerIds, ReleasePlayer ''p1'', PlayerRemoveListener ''p3'' Connect,
      PlayerRemoveListener ''p3'' Disconnect, PlayerRemoveListener ''p3'' Notify,
      Warn (QuitByForce ''p3'')] \<and>
   ledger (snd (syncAcquiredPlayers okEnv diverged)) = [''p2''] \<and>
   fetch_res releaseFails = None \<and>
   fst (syncAcquiredPlayers releaseFails diverged) = Inr ()"
proof -
  have ev: "syncAcquiredPlayers okEnv diverged =
      (Inr (), \<lparr>players = [(''p2'', plainPlayer ''p2'')],
       playerEventHandlers = [(''p2'', {Connect, Disconnect, Notify}), (''p3'', {})],
       channel = Some [], channelExists = True, ledger = [''p2''],
       trace = [GetAcquiredPlayerIds, ReleasePlayer ''p1'', PlayerRemoveListener ''p3'' Connect,
         PlayerRemoveListener ''p3'' Disconnect, PlayerRemoveListener ''p3'' Notify,
         Warn (QuitByForce ''p3'')]\<rparr>)"
    by (simp add: diverged_def okEnv_def area_defs)
  have ok': "fst (syncAcquiredPlayers releaseFails diverged) = Inr ()"
    by (simp add: syncAcquiredPlayers_def getAcquiredPlayerIds_def releaseFails_def okEnv_def
        thenP_def split: prod.splits sum.splits)
  show ?thesis
    using ok' by (simp add: ev) (simp add: diverged_def okEnv_def releaseFails_def)
qed

subsection \<open>C3: reconciliation converges and is idempotent\<close>

text \<open>
  C3 says that after a run of \<open>syncAcquiredPlayers\<close> in which every correction succeeded
  the ids held locally are the ids the ledger attributes to the area. On a running area
  without players to which the ledger attributes \<open>constructor\<close>, with collaborators that
  never fail, the run makes no correction at all, for the reason given under C2 (the
  truthiness test \<open>!self.players[playerId]\<close> takes the inherited name for a held player):
  afterwards the area holds nothing and the ledger still attributes \<open>constructor\<close> to it.
\<close>

theorem sync_leaves_inherited_lock:
  "fetch_res okEnv = None \<and> release_res okEnv ''constructor'' = None \<and>
   ledger orphanLock = [''constructor''] \<and> players orphanLock = [] \<and>
   fst (syncAcquiredPlayers okEnv orphanLock) = Inr () \<and>
   trace (snd (syncAcquiredPlayers okEnv orphanLock)) =
     trace orphanLock @ [GetAcquiredPlayerIds] \<and>
   set (map fst (players (snd (syncAcquiredPlayers okEnv orphanLock)))) = {} \<and>
   set (ledger (snd (syncAcquiredPlayers okEnv orphanLock))) = {''constructor''}"
  by (simp add: orphanLock_def runningArea_eq okEnv_def area_defs)

text \<open>
  For ids that are not inherited names reconciliation converges: when the fetch and every
  release issued succeed (a forced quit of a held player cannot fail), the players kept
  are those the ledger reported, the ids left on the ledger are those the area held, and
  so the ids held locally are exactly the ids the ledger attributes to the area. A second
  run on the state so reached, with any collaborators, makes no correction: it fetches
  the ids and leaves the players, the handlers, the channel and the ledger as they are.
\<close>

lemma sync_converges_ordinary:
  assumes "fetch_res env = None"
    and "\<forall>p \<in> set (ledger w) \<union> fst ` set (players w). p \<notin> set inheritedNames"
    and "\<forall>p \<in> set (ledger w). \<not> held w p \<longrightarrow> release_res env p = None"
  shows "players (snd (syncAcquiredPlayers env w)) =
           filter (\<lambda>kv. fst kv \<in> set (ledger w)) (players w) \<and>
         ledger (snd (syncAcquiredPlayers env w)) = filter (held w) (ledger w) \<and>
         set (map fst (players (snd (syncAcquiredPlayers env w)))) =
           set (ledger (snd (syncAcquiredPlayers env w))) \<and>
         snd (syncAcquiredPlayers env2 (snd (syncAcquiredPlayers env w))) =
           emit GetAcquiredPlayerIds (snd (syncAcquiredPlayers env w))"
proof -
  obtain w' t where 1: "syncAcquiredPlayers env w = (Inr (), w')"
      "players w' = filter (\<lambda>kv. fst kv \<in> set (ledger w)) (players w)"
      "ledger w' = filter (\<lambda>q. \<not> (\<not> held w q \<and> release_res env q = None)) (ledger w)"
    using sync_ok [OF assms(1,2)] by blast
  have l: "ledger w' = filter (held w) (ledger w)"
    unfolding 1(3) by (rule filter_cong) (use assms(3) in auto)
  have hp: "\<And>p. held w' p \<longleftrightarrow> held w p \<and> p \<in> set (ledger w)"
    by (auto simp: held_iff 1(2))
  have lg: "\<And>p. p \<in> set (ledger w') \<longleftrightarrow> p \<in> set (ledger w) \<and> held w p"
    by (auto simp: l)
  have eq: "set (map fst (players w')) = set (ledger w')"
    using hp lg by (auto simp: held_iff)
  have st: "snd (syncAcquiredPlayers env2 w') = emit GetAcquiredPlayerIds w'"
    by (rule sync_stable) (use hp lg in auto)
  show ?thesis using eq st l by (simp add: 1(1,2))
qed

subsection \<open>C4: forced quit\<close>

text \<open>
  C4 says that \<open>quit(p, {force: true})\<close> never throws and does nothing when \<open>p\<close> is absent.
  \<open>quit\<close> decides absence with \<open>!this.players[playerId]\<close>, which an inherited property
  name passes although it is not a key (the truthiness test of C2 again); the forced
  branch then calls \<open>removePlayerEvents\<close>, whose \<open>getPlayer\<close> checks \<open>hasOwnProperty\<close> and
  throws. On a running area without players the forced quit of \<open>constructor\<close> fails with
  "player constructor not in area".
\<close>

theorem quit_force_inherited_name_throws:
  "force forced \<and> \<not> held runningArea ''constructor'' \<and>
   quit okEnv ''constructor'' forced runningArea =
     (Inl (PlayerNotInArea ''constructor''), runningArea)"
  by (simp add: runningArea_eq forced_def okEnv_def area_defs)

text \<open>
  For every other id the forced quit is what C4 describes, in every state and with every
  behaviour of the collaborators: it does not throw and leaves \<open>p\<close> out of \<open>players\<close> with
  the ledger as it was. If \<open>p\<close> was held (under whatever name), its entry is deleted, its
  handlers are gone, and the only effects are the removals of its listeners, one for each
  event it was subscribed to, followed by one warning: no ledger call, no save, no hook.
  If \<open>p\<close> was absent, nothing changes but for a warning in the log.
\<close>

lemma quit_force_ordinary:
  assumes "force options" and "held w p \<or> p \<notin> set inheritedNames"
  shows "fst (quit env p options w) = Inr () \<and>
     \<not> held (snd (quit env p options w)) p \<and>
     ledger (snd (quit env p options w)) = ledger w \<and>
     (held w p \<longrightarrow>
        players (snd (quit env p options w)) = AList.delete p (players w) \<and>
        handlersOf (snd (quit env p options w)) p = {} \<and>
        (\<exists>t. trace (snd (quit env p options w)) = trace w @ t @ [Warn (QuitByForce p)] \<and>
             (\<forall>x \<in> set t. isUnsubscribe p x) \<and>
             (\<forall>ev \<in> handlersOf w p. PlayerRemoveListener p ev \<in> set t))) \<and>
     (\<not> held w p \<longrightarrow> snd (quit env p options w) = emit (Warn (NotInArea p)) w)"
proof (cases "map_of (players w) p")
  case None
  then have "p \<notin> set inheritedNames" using assms(2) by (simp add: held_def)
  with None show ?thesis
    by (simp add: quit_absent held_def)
next
  case (Some pl)
  obtain w1 where 1: "removePlayerEvents p w = (Inr (), w1)" "unsubStep p w w1"
      "handlersOf w1 p = {}"
    using removePlayerEvents_held [OF Some] by blast
  obtain t where t: "trace w1 = trace w @ t" "\<forall>x \<in> set t. isUnsubscribe p x"
      "\<forall>ev. ev \<in> handlersOf w p \<and> ev \<notin> handlersOf w1 p \<longrightarrow> PlayerRemoveListener p ev \<in> set t"
    using 1(2) unfolding unsubStep_def by blast
  have rm: "\<forall>ev \<in> handlersOf w p. PlayerRemoveListener p ev \<in> set t"
    using t(3) 1(3) by simp
  have pw: "players w1 = players w" "ledger w1 = ledger w"
    using 1(2) by (simp_all add: unsubStep_def)
  have eq: "quit env p options w =
      (Inr (), emit (Warn (QuitByForce p)) (w1\<lparr>players := AList.delete p (players w1)\<rparr>))"
    using Some assms(1) by (simp add: quit_def truthyAt_iff 1(1))
  have h: "handlersOf (emit (Warn (QuitByForce p)) (w1\<lparr>players := AList.delete p (players w1)\<rparr>)) p = {}"
    using 1(3) by (simp add: handlersOf_def)
  show ?thesis
    using Some t(1,2) rm pw h by (simp add: eq held_def delete_conv')
qed

text \<open>An instance: the forced quit of the one held player, and of a player that is not held.\<close>

lemma quit_force_instance:
  "force forced \<and> held oneHeld ''p1'' \<and>
   fst (quit okEnv ''p1'' forced oneHeld) = Inr () \<and>
   players (snd (quit okEnv ''p1'' forced oneHeld)) = [] \<and>
   trace (snd (quit okEnv ''p1'' forced oneHeld)) =
     trace oneHeld @ [PlayerRemoveListener ''p1'' Connect, PlayerRemoveListener ''p1'' Disconnect,
       PlayerRemoveListener ''p1'' Notify, Warn (QuitByForce ''p1'')] \<and>
   snd (quit okEnv ''p9'' forced oneHeld) = emit (Warn (NotInArea ''p9'')) oneHeld"
  by (simp add: oneHeld_eq forced_def okEnv_def area_defs)

subsection \<open>C5: destroy needs an empty area\<close>

text \<open>
  C5: whenever \<open>players\<close> is not empty, \<open>destroy()\<close> fails with the error "area not
  empty", in whatever state the area is otherwise, and changes nothing: no hook is called.
  When \<open>players\<close> is empty, \<open>destroy()\<close> calls the \<open>onDestroy\<close> hook if there is one and
  settles as the hook does: it succeeds when there is no hook or the hook succeeds.
\<close>

theorem destroy_precondition:
  "(players w \<noteq> [] \<longrightarrow> destroy env w = (Inl AreaNotEmpty, w)) \<and>
   (players w = [] \<longrightarrow>
      (hooks env OnDestroy = None \<longrightarrow> destroy env w = (Inr (), w)) \<and>
      (\<forall>r. hooks env OnDestroy = Some r \<longrightarrow>
         destroy env w = (settle r, emit (CallHook OnDestroy) w)) \<and>
      (hooks env OnDestroy = None \<or> hooks env OnDestroy = Some None \<longrightarrow>
         fst (destroy env w) = Inr ()))"
  by (auto simp: destroy_def callHook_def)

text \<open>An instance: an area with a hook, once holding a player and once empty.\<close>

theorem destroy_precondition_witness:
  "players oneHeld \<noteq> [] \<and> destroy hookedEnv oneHeld = (Inl AreaNotEmpty, oneHeld) \<and>
   players runningArea = [] \<and> hooks hookedEnv OnDestroy = Some None \<and>
   destroy hookedEnv runningArea = (Inr (), emit (CallHook OnDestroy) runningArea)"
  using destroy_precondition [of oneHeld hookedEnv] destroy_precondition [of runningArea hookedEnv]
  by (simp add: oneHeld_eq runningArea_eq hookedEnv_def okEnv_def)

subsection \<open>C6: a failed quit keeps the player\<close>



subsection \<open>C7: subscriptions and the player table\<close>




subsection \<open>C8: the order of stop\<close>



subsection \<open>C9: notification routing\<close>

text \<open>
  C9 says that \<open>notify\<close> broadcasts whenever the target is empty or absent. The test in
  the source is \<open>!playerIds\<close>, which an empty array does not pass: with the empty list
  of ids as target nothing is broadcast, the message is pushed to an empty list of
  identities. Here on an area whose channel has two members.
\<close>

theorem notify_empty_list_is_not_broadcast:
  "targetIds (Many []) = [] \<and>
   notify (Many []) ''chat'' ''hi'' connectedArea =
     (Inr (), emit (PushMessageByUids ''chat'' ''hi'' []) connectedArea) \<and>
   PushMessage ''chat'' ''hi'' \<notin> set (trace (snd (notify (Many []) ''chat'' ''hi'' connectedArea)))"
  by (simp add: connectedArea_eq notify_def falsy_def targetIds_def emit_def)

text \<open>
  C9, amended: on an area that has its channel, \<open>notify(target, route, message)\<close>
  broadcasts to the whole channel when the target is absent or is the empty string.
  A single non-empty id is treated as the list of that one id. A list of ids, the empty one
  included, is never a broadcast: each id is resolved to its member record in the channel
  and the message is pushed to exactly the list of these, so that every member record
  that receives it belongs to a listed id.
\<close>

theorem notify_routing:
  assumes "channel w = Some m"
  shows "(playerIds = Absent \<or> playerIds = One [] \<longrightarrow>
            notify playerIds rt msg w = (Inr (), emit (PushMessage rt msg) w)) \<and>
         (\<forall>p. p \<noteq> [] \<longrightarrow>
            notify (One p) rt msg w = notify (Many [p]) rt msg w \<and>
            notify (One p) rt msg w = (Inr (), emit (PushMessageByUids rt msg [map_of m p]) w)) \<and>
         (\<forall>ps. notify (Many ps) rt msg w =
            (Inr (), emit (PushMessageByUids rt msg (map (map_of m) ps)) w) \<and>
            (\<forall>mem. Some mem \<in> set (map (map_of m) ps) \<longrightarrow>
               (\<exists>p \<in> set ps. map_of m p = Some mem)))"
  using assms
  by (auto simp: notify_def notifyAll_def falsy_def targetIds_def getMembers_Some getMember_def)

text \<open>An instance: nothing as target, and \<open>p1\<close> alone as target.\<close>

theorem notify_routing_witness:
  "channel connectedArea = Some [(''p1'', ''p1'', ''c1''), (''p2'', ''p2'', ''c2'')] \<and>
   notify Absent ''chat'' ''hi'' connectedArea =
     (Inr (), emit (PushMessage ''chat'' ''hi'') connectedArea) \<and>
   notify (One ''p1'') ''chat'' ''hi'' connectedArea =
     (Inr (), emit (PushMessageByUids ''chat'' ''hi'' [Some (''p1'', ''c1'')]) connectedArea)"
proof -
  have h: "channel connectedArea = Some [(''p1'', ''p1'', ''c1''), (''p2'', ''p2'', ''c2'')]"
    by (simp add: connectedArea_eq)
  show ?thesis
    using h notify_routing [OF h, of Absent "''chat''" "''hi''"] by simp
qed

subsection \<open>C10: bulk load is not atomic\<close>

text \<open>
  C10: \<open>loadPlayers()\<close> empties \<open>players\<close> before it calls the ledger. If the bulk load
  fails, \<open>loadPlayers()\<close>, and \<open>deserialize()\<close> with it, is rejected with that error and
  \<open>players\<close> is left empty: the players held before are not restored.
\<close>

theorem loadPlayers_not_atomic:
  "loadAll_res env = Inl e \<Longrightarrow>
     loadPlayers env w = (Inl e, emit LoadAcquiredPlayers (w\<lparr>players := []\<rparr>)) \<and>
     deserialize env w = (Inl e, emit LoadAcquiredPlayers (w\<lparr>players := []\<rparr>)) \<and>
     players (snd (loadPlayers env w)) = [] \<and>
     players (snd (deserialize env w)) = []"
  by (simp add: loadPlayers_def deserialize_def loadAcquiredPlayers_def)

text \<open>An instance: the area holding \<open>p1\<close> loses it when the bulk load fails.\<close>

theorem loadPlayers_not_atomic_witness:
  "loadAll_res bulkLoadFails = Inl (External ''unavailable'') \<and> players oneHeld \<noteq> [] \<and>
   fst (loadPlayers bulkLoadFails oneHeld) = Inl (External ''unavailable'') \<and>
   players (snd (loadPlayers bulkLoadFails oneHeld)) = [] \<and>
   fst (deserialize bulkLoadFails oneHeld) = Inl (External ''unavailable'') \<and>
   players (snd (deserialize bulkLoadFails oneHeld)) = []"
proof -
  have h: "loadAll_res bulkLoadFails = Inl (External ''unavailable'')"
    by (simp add: bulkLoadFails_def okEnv_def)
  show ?thesis
    using h loadPlayers_not_atomic [OF h, of oneHeld] by (simp add: oneHeld_eq)
qed

end
